theory Spec2Isabelle
  imports Main "HOL-Library.Word" "HOL-Library.State_Monad" "HOL-Library.Sublist"
begin

section \<open>Go values used by the migrator\<close>

type_synonym uint64 = "64 word"
type_synonym bytes = string

text \<open>
  A Go \<^verbatim>\<open>error\<close> value. \<^verbatim>\<open>fmt.Errorf\<close> without a \<^verbatim>\<open>%w\<close> verb (and every error
  coming out of a library) is an \<open>errorString\<close>; \<^verbatim>\<open>fmt.Errorf("...: %w", err)\<close> is a
  \<open>wrapError\<close> holding the formatted message and the wrapped error.
\<close>

datatype error = errorString string | wrapError string error

fun Error :: "error \<Rightarrow> string" where
  "Error (errorString s) = s"
| "Error (wrapError msg err) = msg"

fun Unwrap :: "error \<Rightarrow> error option" where
  "Unwrap (errorString s) = None"
| "Unwrap (wrapError msg err) = Some err"

text \<open>\<^verbatim>\<open>fmt.Errorf(msg + ": %w", err)\<close>\<close>

definition Errorf_w :: "string \<Rightarrow> error \<Rightarrow> error" where
  "Errorf_w msg err = wrapError (msg @ '': '' @ Error err) err"

text \<open>\<^verbatim>\<open>fmt.Sprintf("%s/%s", dir, name)\<close>\<close>

definition Sprintf_path :: "string \<Rightarrow> string \<Rightarrow> string" where
  "Sprintf_path dir name = dir @ ''/'' @ name"

record MigrateArgs =
  DSN :: string
  ClusterName :: string
  ReplicationEnabled :: bool
  Development :: bool
  UpVersions :: "uint64 list"
  DownVersions :: "uint64 list"
  CertDir :: string
  CertName :: string
  KeyName :: string
  CAName :: string

text \<open>
  Values of the libraries the wrapper hands around without looking inside: a loaded key
  pair, a parsed CA certificate, an open connection and a migration manager are handles.
\<close>

datatype tls_Certificate = KeyPair nat
datatype x509_Certificate = CACert nat
datatype Conn = Conn nat
datatype Manager = Manager nat

record tls_Config =
  Certificates :: "tls_Certificate list"
  RootCAs :: "x509_Certificate list"

record Options =
  Addr :: string
  TLS :: "tls_Config option"

text \<open>The functional options given to \<^verbatim>\<open>NewMigrationManager\<close> (the logger apart).\<close>

record ManagerOptions =
  optClusterName :: string
  optReplicationEnabled :: bool
  optConn :: Conn
  optConnOptions :: Options
  optDevelopment :: bool

section \<open>The environment: file system, TLS library, database driver, migration manager\<close>

text \<open>
  Everything outside the wrapper is a parameter: what each library call answers.
  \<open>x509_pemCerts\<close> is the list of certificates \<^verbatim>\<open>AppendCertsFromPEM\<close> finds in a byte
  string; the call reports \<^verbatim>\<open>ok\<close> exactly when that list is not empty. The migration
  manager is code of the repository that the wrapper only calls.
\<close>

record world =
  clickhouse_ParseDSN :: "string \<Rightarrow> error + Options"
  clickhouse_Open :: "Options \<Rightarrow> error + Conn"
  conn_Ping :: "Conn \<Rightarrow> error option"
  conn_Close :: "Conn \<Rightarrow> error option"
  os_Stat :: "string \<Rightarrow> error option"
  os_ReadFile :: "string \<Rightarrow> error + bytes"
  tls_LoadX509KeyPair :: "string \<Rightarrow> string \<Rightarrow> error + tls_Certificate"
  x509_pemCerts :: "bytes \<Rightarrow> x509_Certificate list"
  schema_NewMigrationManager :: "ManagerOptions \<Rightarrow> error + Manager"
  manager_Bootstrap :: "Manager \<Rightarrow> error option"
  manager_RunSquashedMigrations :: "Manager \<Rightarrow> error option"
  manager_MigrateUpSync :: "Manager \<Rightarrow> uint64 list \<Rightarrow> error option"
  manager_MigrateDownSync :: "Manager \<Rightarrow> uint64 list \<Rightarrow> error option"
  manager_MigrateUpAsync :: "Manager \<Rightarrow> uint64 list \<Rightarrow> error option"
  manager_MigrateDownAsync :: "Manager \<Rightarrow> uint64 list \<Rightarrow> error option"

text \<open>
  The effects of a run are recorded in order: every call that leaves the process (file
  system, network, migration manager) and every log line.
\<close>

datatype event =
    LogInfo string
  | LogPrintf string
  | CallParseDSN string
  | CallStat string
  | CallLoadX509KeyPair string string
  | CallReadFile string
  | CallOpen Options
  | CallPing Conn
  | CallClose Conn
  | CallNewMigrationManager ManagerOptions
  | CallBootstrap Manager
  | CallRunSquashedMigrations Manager
  | CallMigrateUpSync Manager "uint64 list"
  | CallMigrateDownSync Manager "uint64 list"
  | CallMigrateUpAsync Manager "uint64 list"
  | CallMigrateDownAsync Manager "uint64 list"

type_synonym 'a io = "(event list, 'a) state"

definition emit :: "event \<Rightarrow> unit io" where
  "emit e = State (\<lambda>tr. ((), tr @ [e]))"

definition call :: "event \<Rightarrow> 'a \<Rightarrow> 'a io" where
  "call e answer = do { emit e; State_Monad.return answer }"

definition logInfo :: "string \<Rightarrow> unit io" where
  "logInfo msg = emit (LogInfo msg)"

definition logPrintf :: "string \<Rightarrow> unit io" where
  "logPrintf msg = emit (LogPrintf msg)"

definition ParseDSN :: "world \<Rightarrow> string \<Rightarrow> (error + Options) io" where
  "ParseDSN w dsn = call (CallParseDSN dsn) (clickhouse_ParseDSN w dsn)"

definition Open :: "world \<Rightarrow> Options \<Rightarrow> (error + Conn) io" where
  "Open w opts = call (CallOpen opts) (clickhouse_Open w opts)"

definition Ping :: "world \<Rightarrow> Conn \<Rightarrow> error option io" where
  "Ping w c = call (CallPing c) (conn_Ping w c)"

definition Close :: "world \<Rightarrow> Conn \<Rightarrow> error option io" where
  "Close w c = call (CallClose c) (conn_Close w c)"

definition Stat :: "world \<Rightarrow> string \<Rightarrow> error option io" where
  "Stat w name = call (CallStat name) (os_Stat w name)"

definition ReadFile :: "world \<Rightarrow> string \<Rightarrow> (error + bytes) io" where
  "ReadFile w name = call (CallReadFile name) (os_ReadFile w name)"

definition LoadX509KeyPair :: "world \<Rightarrow> string \<Rightarrow> string \<Rightarrow> (error + tls_Certificate) io" where
  "LoadX509KeyPair w certFile keyFile =
     call (CallLoadX509KeyPair certFile keyFile) (tls_LoadX509KeyPair w certFile keyFile)"

definition NewMigrationManager :: "world \<Rightarrow> ManagerOptions \<Rightarrow> (error + Manager) io" where
  "NewMigrationManager w mo = call (CallNewMigrationManager mo) (schema_NewMigrationManager w mo)"

definition Bootstrap :: "world \<Rightarrow> Manager \<Rightarrow> error option io" where
  "Bootstrap w m = call (CallBootstrap m) (manager_Bootstrap w m)"

definition RunSquashedMigrations :: "world \<Rightarrow> Manager \<Rightarrow> error option io" where
  "RunSquashedMigrations w m = call (CallRunSquashedMigrations m) (manager_RunSquashedMigrations w m)"

definition MigrateUpSync :: "world \<Rightarrow> Manager \<Rightarrow> uint64 list \<Rightarrow> error option io" where
  "MigrateUpSync w m vs = call (CallMigrateUpSync m vs) (manager_MigrateUpSync w m vs)"

definition MigrateDownSync :: "world \<Rightarrow> Manager \<Rightarrow> uint64 list \<Rightarrow> error option io" where
  "MigrateDownSync w m vs = call (CallMigrateDownSync m vs) (manager_MigrateDownSync w m vs)"

definition MigrateUpAsync :: "world \<Rightarrow> Manager \<Rightarrow> uint64 list \<Rightarrow> error option io" where
  "MigrateUpAsync w m vs = call (CallMigrateUpAsync m vs) (manager_MigrateUpAsync w m vs)"

definition MigrateDownAsync :: "world \<Rightarrow> Manager \<Rightarrow> uint64 list \<Rightarrow> error option io" where
  "MigrateDownAsync w m vs = call (CallMigrateDownAsync m vs) (manager_MigrateDownAsync w m vs)"

text \<open>Running an operation from the empty trace: what it returns, and what it did.\<close>

definition result :: "'a io \<Rightarrow> 'a" where
  "result m = fst (run_state m [])"

definition trace :: "'a io \<Rightarrow> event list" where
  "trace m = snd (run_state m [])"

section \<open>tls\_migrator.go\<close>

text \<open>
  \<^verbatim>\<open>x509.NewCertPool()\<close> and \<^verbatim>\<open>pool.AppendCertsFromPEM(pem)\<close>: the pool grows by
  the certificates found, and the call reports whether it found any.
\<close>

definition NewCertPool :: "x509_Certificate list" where
  "NewCertPool = []"

definition AppendCertsFromPEM ::
  "world \<Rightarrow> x509_Certificate list \<Rightarrow> bytes \<Rightarrow> x509_Certificate list \<times> bool" where
  "AppendCertsFromPEM w pool pem = (pool @ x509_pemCerts w pem, x509_pemCerts w pem \<noteq> [])"

definition createTLSConfig :: "world \<Rightarrow> MigrateArgs \<Rightarrow> (error + tls_Config) io" where
  "createTLSConfig w args =
    (let dir = CertDir args;
         certName = CertName args;
         keyName = KeyName args;
         caName = CAName args;
         certFile = Sprintf_path dir certName;
         privateKeyFile = Sprintf_path dir keyName;
         caFile = Sprintf_path dir caName
     in do {
       logInfo ''Loading cert/key'';
       r \<leftarrow> LoadX509KeyPair w certFile privateKeyFile;
       case r of
         Inl err \<Rightarrow> State_Monad.return (Inl (Errorf_w ''failed to load client key pair'' err))
       | Inr cert \<Rightarrow> do {
           logInfo ''Loading CA cert'';
           r \<leftarrow> ReadFile w caFile;
           case r of
             Inl err \<Rightarrow> State_Monad.return (Inl (Errorf_w ''failed to read ca certificate'' err))
           | Inr caCert \<Rightarrow> do {
               logInfo ''Creating cert pool'';
               let caCertPool = fst (AppendCertsFromPEM w NewCertPool caCert);
               logInfo ''Making TLS config'';
               let tlsConfig = \<lparr>Certificates = [cert], RootCAs = caCertPool\<rparr>;
               logInfo ''TLS config created successfully'';
               State_Monad.return (Inr tlsConfig)
             }
         }
     })"

definition RunSyncMigrate :: "world \<Rightarrow> MigrateArgs \<Rightarrow> error option io" where
  "RunSyncMigrate w args = do {
     logInfo ''Starting TLS migrator'';
     if length (UpVersions args) \<noteq> 0 \<and> length (DownVersions args) \<noteq> 0 then
       State_Monad.return (Some (errorString ''cannot provide both up and down migrations''))
     else do {
       r \<leftarrow> ParseDSN w (DSN args);
       case r of
         Inl err \<Rightarrow> State_Monad.return (Some (Errorf_w ''failed to parse dsn'' err))
       | Inr opts \<Rightarrow> do {
           logInfo ''Parsed DSN'';
           r \<leftarrow> createTLSConfig w args;
           case r of
             Inl err \<Rightarrow> State_Monad.return (Some (Errorf_w ''failed to get tls config'' err))
           | Inr tlsConfig \<Rightarrow> do {
               let opts = opts\<lparr>TLS := Some tlsConfig\<rparr>;
               logInfo ''Opening connection'';
               r \<leftarrow> Open w opts;
               case r of
                 Inl err \<Rightarrow> State_Monad.return (Some (Errorf_w ''failed to open connection'' err))
               | Inr conn \<Rightarrow> do {
                   logInfo ''Opened connection successfully'';
                   r \<leftarrow> NewMigrationManager w
                         \<lparr>optClusterName = ClusterName args,
                          optReplicationEnabled = ReplicationEnabled args,
                          optConn = conn,
                          optConnOptions = opts,
                          optDevelopment = Development args\<rparr>;
                   case r of
                     Inl err \<Rightarrow>
                       State_Monad.return (Some (Errorf_w ''failed to create migration manager'' err))
                   | Inr manager \<Rightarrow> do {
                       r \<leftarrow> Bootstrap w manager;
                       case r of
                         Some err \<Rightarrow>
                           State_Monad.return (Some (Errorf_w ''failed to bootstrap migrations'' err))
                       | None \<Rightarrow> do {
                           logInfo ''Bootstrapped migrations'';
                           r \<leftarrow> RunSquashedMigrations w manager;
                           case r of
                             Some err \<Rightarrow>
                               State_Monad.return
                                 (Some (Errorf_w ''failed to run squashed migrations'' err))
                           | None \<Rightarrow> do {
                               logInfo ''Ran squashed migrations'';
                               if length (DownVersions args) \<noteq> 0 then do {
                                 logInfo ''Migrating down'';
                                 MigrateDownSync w manager (DownVersions args)
                               } else do {
                                 logInfo ''Migrating up'';
                                 MigrateUpSync w manager (UpVersions args)
                               }
                             }
                         }
                     }
                 }
             }
         }
     }
   }"

definition RunSyncMigrateWithDefaults :: "world \<Rightarrow> string \<Rightarrow> string \<Rightarrow> string \<Rightarrow> error option io" where
  "RunSyncMigrateWithDefaults w dsn clusterName certDir =
     RunSyncMigrate w
       \<lparr>DSN = dsn, ClusterName = clusterName, ReplicationEnabled = False, Development = False,
        UpVersions = [], DownVersions = [], CertDir = certDir, CertName = ''fullchain.crt'',
        KeyName = ''private_migration.key'', CAName = ''partialchain.crt''\<rparr>"

definition RunUpMigrations ::
  "world \<Rightarrow> string \<Rightarrow> string \<Rightarrow> string \<Rightarrow> uint64 list \<Rightarrow> error option io" where
  "RunUpMigrations w dsn clusterName certDir versions =
     RunSyncMigrate w
       \<lparr>DSN = dsn, ClusterName = clusterName, ReplicationEnabled = False, Development = False,
        UpVersions = versions, DownVersions = [], CertDir = certDir, CertName = ''fullchain.crt'',
        KeyName = ''private_migration.key'', CAName = ''partialchain.crt''\<rparr>"

definition RunDownMigrations ::
  "world \<Rightarrow> string \<Rightarrow> string \<Rightarrow> string \<Rightarrow> uint64 list \<Rightarrow> error option io" where
  "RunDownMigrations w dsn clusterName certDir versions =
     RunSyncMigrate w
       \<lparr>DSN = dsn, ClusterName = clusterName, ReplicationEnabled = False, Development = False,
        UpVersions = [], DownVersions = versions, CertDir = certDir, CertName = ''fullchain.crt'',
        KeyName = ''private_migration.key'', CAName = ''partialchain.crt''\<rparr>"

definition ValidateTLSConfig :: "world \<Rightarrow> MigrateArgs \<Rightarrow> error option io" where
  "ValidateTLSConfig w args =
    (let certFile = Sprintf_path (CertDir args) (CertName args);
         keyFile = Sprintf_path (CertDir args) (KeyName args);
         caFile = Sprintf_path (CertDir args) (CAName args)
     in do {
       r \<leftarrow> Stat w certFile;
       case r of
         Some err \<Rightarrow> State_Monad.return (Some (Errorf_w ''certificate file not accessible'' err))
       | None \<Rightarrow> do {
           r \<leftarrow> Stat w keyFile;
           case r of
             Some err \<Rightarrow> State_Monad.return (Some (Errorf_w ''key file not accessible'' err))
           | None \<Rightarrow> do {
               r \<leftarrow> Stat w caFile;
               case r of
                 Some err \<Rightarrow> State_Monad.return (Some (Errorf_w ''CA file not accessible'' err))
               | None \<Rightarrow> do {
                   r \<leftarrow> LoadX509KeyPair w certFile keyFile;
                   case r of
                     Inl err \<Rightarrow>
                       State_Monad.return (Some (Errorf_w ''failed to load certificate pair'' err))
                   | Inr _ \<Rightarrow> do {
                       r \<leftarrow> ReadFile w caFile;
                       case r of
                         Inl err \<Rightarrow>
                           State_Monad.return (Some (Errorf_w ''failed to read CA certificate'' err))
                       | Inr caCert \<Rightarrow>
                           if \<not> snd (AppendCertsFromPEM w NewCertPool caCert) then
                             State_Monad.return (Some (errorString ''failed to parse CA certificate''))
                           else do {
                             logInfo ''TLS configuration validation successful'';
                             State_Monad.return None
                           }
                     }
                 }
             }
         }
     })"

text \<open>
  \<^verbatim>\<open>defer conn.Close()\<close> runs when the function returns, after the return value is
  fixed, on both paths that follow it; the error \<^verbatim>\<open>Close\<close> returns is dropped.
\<close>

definition TestConnection :: "world \<Rightarrow> MigrateArgs \<Rightarrow> error option io" where
  "TestConnection w args = do {
     r \<leftarrow> ParseDSN w (DSN args);
     case r of
       Inl err \<Rightarrow> State_Monad.return (Some (Errorf_w ''failed to parse DSN'' err))
     | Inr opts \<Rightarrow> do {
         r \<leftarrow> createTLSConfig w args;
         case r of
           Inl err \<Rightarrow> State_Monad.return (Some (Errorf_w ''failed to create TLS config'' err))
         | Inr tlsConfig \<Rightarrow> do {
             let opts = opts\<lparr>TLS := Some tlsConfig\<rparr>;
             r \<leftarrow> Open w opts;
             case r of
               Inl err \<Rightarrow> State_Monad.return (Some (Errorf_w ''failed to open connection'' err))
             | Inr conn \<Rightarrow> do {
                 ret \<leftarrow> do {
                   r \<leftarrow> Ping w conn;
                   case r of
                     Some err \<Rightarrow> State_Monad.return (Some (Errorf_w ''failed to ping database'' err))
                   | None \<Rightarrow> do {
                       logInfo ''Database connection test successful'';
                       State_Monad.return None
                     }
                 };
                 _ \<leftarrow> Close w conn;
                 State_Monad.return ret
               }
           }
       }
   }"

section \<open>The command line (package main)\<close>

subsection \<open>Library functions the command uses\<close>

text \<open>
  \<^verbatim>\<open>strings.Split(s, sep)\<close> for a one-byte separator, as a scan: \<open>cur\<close> is the piece
  being read. A string with \<open>n\<close> separators has \<open>n + 1\<close> pieces; the empty string has one,
  the empty piece.
\<close>

fun splitScan :: "char \<Rightarrow> string \<Rightarrow> string \<Rightarrow> string list" where
  "splitScan sep cur [] = [cur]"
| "splitScan sep cur (c # cs) =
     (if c = sep then cur # splitScan sep [] cs else splitScan sep (cur @ [c]) cs)"

definition Split :: "string \<Rightarrow> char \<Rightarrow> string list" where
  "Split s sep = splitScan sep [] s"

text \<open>\<^verbatim>\<open>strings.ToLower\<close> on ASCII text.\<close>

definition ToLower :: "string \<Rightarrow> string" where
  "ToLower s = map (\<lambda>c. if 65 \<le> (of_char c :: nat) \<and> (of_char c :: nat) \<le> 90
                         then char_of (of_char c + 32 :: nat) else c) s"

text \<open>
  \<^verbatim>\<open>strconv.ParseUint(s, 10, 64)\<close>, following the loop of the Go standard library:
  \<open>n\<close> is a \<^verbatim>\<open>uint64\<close>, \<open>cutoff\<close> is the smallest number whose tenfold exceeds
  \<^verbatim>\<open>maxUint64\<close>, and the addition of the digit is checked for wrap-around. In base 10
  every byte that is not a decimal digit is a syntax error.
\<close>

datatype NumErr = ErrSyntax | ErrRange

definition cutoff :: uint64 where
  "cutoff = 18446744073709551615 div 10 + 1"

definition maxVal :: uint64 where
  "maxVal = push_bit 64 1 - 1"

definition isDigit :: "char \<Rightarrow> bool" where
  "isDigit c \<longleftrightarrow> 48 \<le> (of_char c :: nat) \<and> (of_char c :: nat) \<le> 57"

fun parseUintLoop :: "string \<Rightarrow> uint64 \<Rightarrow> NumErr + uint64" where
  "parseUintLoop [] n = Inr n"
| "parseUintLoop (c # cs) n =
     (if \<not> isDigit c then Inl ErrSyntax
      else let d = (word_of_nat (of_char c - 48) :: uint64) in
        if n \<ge> cutoff then Inl ErrRange
        else let n10 = n * 10; n1 = n10 + d in
          if n1 < n10 \<or> n1 > maxVal then Inl ErrRange
          else parseUintLoop cs n1)"

text \<open>
  The \<^verbatim>\<open>*NumError\<close> returned: its text names the function and the input (quoted; the
  quoting of \<^verbatim>\<open>strconv.Quote\<close> is the identity on text without quotes, backslashes
  and control characters), and it wraps \<^verbatim>\<open>ErrSyntax\<close> or \<^verbatim>\<open>ErrRange\<close>.
\<close>

definition numError :: "string \<Rightarrow> NumErr \<Rightarrow> error" where
  "numError s e =
     (let cause = (case e of ErrSyntax \<Rightarrow> ''invalid syntax'' | ErrRange \<Rightarrow> ''value out of range'')
      in wrapError (''strconv.ParseUint: parsing '' @ [CHR 0x22] @ s @ [CHR 0x22] @ '': '' @ cause)
           (errorString cause))"

definition ParseUint :: "string \<Rightarrow> error + uint64" where
  "ParseUint s =
     (if s = [] then Inl (numError s ErrSyntax)
      else case parseUintLoop s 0 of
             Inl e \<Rightarrow> Inl (numError s e)
           | Inr n \<Rightarrow> Inr n)"

subsection \<open>Flags\<close>

text \<open>
  The flag set a subcommand's \<^verbatim>\<open>RunE\<close> sees, after cobra has parsed the arguments and
  \<^verbatim>\<open>PersistentPreRun\<close> has filled unset flags from the environment: the flags that were
  defined, each with its current value as a string. \<^verbatim>\<open>Lookup\<close> of a name that was never
  defined is \<^verbatim>\<open>nil\<close>; cobra refuses an argument that names an undefined flag before
  \<^verbatim>\<open>RunE\<close> runs, and \<^verbatim>\<open>PersistentPreRun\<close> only sets flags it visits, so neither adds a
  name.
\<close>

type_synonym FlagSet = "string \<rightharpoonup> string"

text \<open>
  \<^verbatim>\<open>main\<close> defines the persistent flags \<^verbatim>\<open>dsn\<close>, \<^verbatim>\<open>replication\<close>,
  \<^verbatim>\<open>cluster-name\<close> and \<^verbatim>\<open>dev\<close>; \<^verbatim>\<open>registerSyncMigrate\<close> defines \<^verbatim>\<open>up\<close> and
  \<^verbatim>\<open>down\<close> on the sync command, \<^verbatim>\<open>registerAsyncMigrate\<close> the same two on the async
  command. The arguments are the current values.
\<close>

definition persistentFlags :: "string \<Rightarrow> string \<Rightarrow> string \<Rightarrow> string \<Rightarrow> FlagSet" where
  "persistentFlags vDsn vReplication vClusterName vDev =
     [''dsn'' \<mapsto> vDsn, ''replication'' \<mapsto> vReplication,
      ''cluster-name'' \<mapsto> vClusterName, ''dev'' \<mapsto> vDev]"

definition syncFlags ::
  "string \<Rightarrow> string \<Rightarrow> string \<Rightarrow> string \<Rightarrow> string \<Rightarrow> string \<Rightarrow> FlagSet" where
  "syncFlags vDsn vReplication vClusterName vDev vUp vDown =
     (persistentFlags vDsn vReplication vClusterName vDev)(''up'' \<mapsto> vUp, ''down'' \<mapsto> vDown)"

definition asyncFlags ::
  "string \<Rightarrow> string \<Rightarrow> string \<Rightarrow> string \<Rightarrow> string \<Rightarrow> string \<Rightarrow> FlagSet" where
  "asyncFlags vDsn vReplication vClusterName vDev vUp vDown =
     (persistentFlags vDsn vReplication vClusterName vDev)(''up'' \<mapsto> vUp, ''down'' \<mapsto> vDown)"

text \<open>
  What running a command function comes to: it returns its \<^verbatim>\<open>error\<close> (or \<^verbatim>\<open>nil\<close>), or
  the Go runtime panics.
\<close>

datatype outcome = Return "error option" | Panic string

definition nilDereference :: string where
  "nilDereference = ''runtime error: invalid memory address or nil pointer dereference''"

text \<open>
  \<^verbatim>\<open>cmd.Flags().Lookup(name).Value.String()\<close>, followed by the rest of the function:
  reading \<^verbatim>\<open>.Value\<close> through the \<^verbatim>\<open>nil\<close> pointer of an undefined flag panics.
\<close>

definition LookupValue :: "FlagSet \<Rightarrow> string \<Rightarrow> (string \<Rightarrow> outcome io) \<Rightarrow> outcome io" where
  "LookupValue flags name rest =
     (case flags name of
        None \<Rightarrow> State_Monad.return (Panic nilDereference)
      | Some v \<Rightarrow> rest v)"

text \<open>
  The loop over the pieces of a \<^verbatim>\<open>--up\<close> or \<^verbatim>\<open>--down\<close> value; the source has it four
  times, word for word.
\<close>

fun parseVersions :: "string list \<Rightarrow> uint64 list \<Rightarrow> error + uint64 list" where
  "parseVersions [] versions = Inr versions"
| "parseVersions (version # rest) versions =
     (if version = [] then parseVersions rest versions
      else case ParseUint version of
             Inl err \<Rightarrow> Inl (Errorf_w ''failed to parse version'' err)
           | Inr v \<Rightarrow> parseVersions rest (versions @ [v]))"

subsection \<open>The sync command\<close>

record runSyncMigrateArgs =
  dsn :: string
  clusterName :: string
  replicationEnabled :: bool
  development :: bool
  upVersions :: "uint64 list"
  downVersions :: "uint64 list"
  certDir :: string
  certName :: string
  keyName :: string
  caName :: string

definition main_createTLSConfig :: "world \<Rightarrow> runSyncMigrateArgs \<Rightarrow> (error + tls_Config) io" where
  "main_createTLSConfig w args =
    (let certFile = Sprintf_path (certDir args) (certName args);
         privateKeyFile = Sprintf_path (certDir args) (keyName args);
         caFile = Sprintf_path (certDir args) (caName args)
     in do {
       logPrintf ''regSyncMig> Loading cert/key...'';
       r \<leftarrow> LoadX509KeyPair w certFile privateKeyFile;
       case r of
         Inl err \<Rightarrow> State_Monad.return (Inl (Errorf_w ''failed to load client key pair'' err))
       | Inr cert \<Rightarrow> do {
           logPrintf ''regSyncMig> Loading CA cert...'';
           r \<leftarrow> ReadFile w caFile;
           case r of
             Inl err \<Rightarrow> State_Monad.return (Inl (Errorf_w ''failed to read ca certificate'' err))
           | Inr caCert \<Rightarrow> do {
               logPrintf ''regSyncMig> Creating cert pool...'';
               let caCertPool = fst (AppendCertsFromPEM w NewCertPool caCert);
               logPrintf ''regSyncMig> Making TLS config...'';
               let tlsConfig = \<lparr>Certificates = [cert], RootCAs = caCertPool\<rparr>;
               logPrintf ''regSyncMig> Done.'';
               State_Monad.return (Inr tlsConfig)
             }
         }
     })"

definition main_RunSyncMigrate :: "world \<Rightarrow> runSyncMigrateArgs \<Rightarrow> error option io" where
  "main_RunSyncMigrate w args = do {
     logInfo ''Running migrations in sync mode'';
     if length (upVersions args) \<noteq> 0 \<and> length (downVersions args) \<noteq> 0 then
       State_Monad.return (Some (errorString ''cannot provide both up and down migrations''))
     else do {
       r \<leftarrow> ParseDSN w (dsn args);
       case r of
         Inl err \<Rightarrow> State_Monad.return (Some (Errorf_w ''failed to parse dsn'' err))
       | Inr opts \<Rightarrow> do {
           logInfo ''Parsed DSN'';
           r \<leftarrow> main_createTLSConfig w args;
           case r of
             Inl err \<Rightarrow> State_Monad.return (Some (Errorf_w ''failed to get tls config'' err))
           | Inr tlsConfig \<Rightarrow> do {
               let opts = opts\<lparr>TLS := Some tlsConfig\<rparr>;
               logPrintf ''regSyncMig> Opening connection...'';
               r \<leftarrow> Open w opts;
               case r of
                 Inl err \<Rightarrow> State_Monad.return (Some (Errorf_w ''failed to open connection'' err))
               | Inr conn \<Rightarrow> do {
                   logInfo ''Opened connection'';
                   r \<leftarrow> NewMigrationManager w
                         \<lparr>optClusterName = clusterName args,
                          optReplicationEnabled = replicationEnabled args,
                          optConn = conn,
                          optConnOptions = opts,
                          optDevelopment = development args\<rparr>;
                   case r of
                     Inl err \<Rightarrow>
                       State_Monad.return (Some (Errorf_w ''failed to create migration manager'' err))
                   | Inr manager \<Rightarrow> do {
                       r \<leftarrow> Bootstrap w manager;
                       case r of
                         Some err \<Rightarrow>
                           State_Monad.return (Some (Errorf_w ''failed to bootstrap migrations'' err))
                       | None \<Rightarrow> do {
                           logInfo ''Bootstrapped migrations'';
                           r \<leftarrow> RunSquashedMigrations w manager;
                           case r of
                             Some err \<Rightarrow>
                               State_Monad.return
                                 (Some (Errorf_w ''failed to run squashed migrations'' err))
                           | None \<Rightarrow> do {
                               logInfo ''Ran squashed migrations'';
                               if length (downVersions args) \<noteq> 0 then do {
                                 logInfo ''Migrating down'';
                                 MigrateDownSync w manager (downVersions args)
                               } else do {
                                 logInfo ''Migrating up'';
                                 MigrateUpSync w manager (upVersions args)
                               }
                             }
                         }
                     }
                 }
             }
         }
     }
   }"

text \<open>The \<^verbatim>\<open>RunE\<close> of the sync command, given the command's flag set.\<close>

definition syncRunE :: "world \<Rightarrow> FlagSet \<Rightarrow> outcome io" where
  "syncRunE w flags =
     LookupValue flags ''dsn'' (\<lambda>vDsn.
     LookupValue flags ''replication'' (\<lambda>vReplication.
     LookupValue flags ''cluster-name'' (\<lambda>vClusterName.
     LookupValue flags ''dev'' (\<lambda>vDev.
     LookupValue flags ''up'' (\<lambda>vUp.
       case parseVersions (Split vUp CHR '','') [] of
         Inl err \<Rightarrow> State_Monad.return (Return (Some err))
       | Inr vUpVersions \<Rightarrow>
     LookupValue flags ''down'' (\<lambda>vDown.
       case parseVersions (Split vDown CHR '','') [] of
         Inl err \<Rightarrow> State_Monad.return (Return (Some err))
       | Inr vDownVersions \<Rightarrow>
     LookupValue flags ''cert-dir'' (\<lambda>vCertDir.
     LookupValue flags ''cert-name'' (\<lambda>vCertName.
     LookupValue flags ''key-name'' (\<lambda>vKeyName.
     LookupValue flags ''ca-name'' (\<lambda>vCaName. do {
       r \<leftarrow> main_RunSyncMigrate w
             \<lparr>dsn = vDsn,
              clusterName = vClusterName,
              replicationEnabled = (ToLower vReplication = ''true''),
              development = (ToLower vDev = ''true''),
              upVersions = vUpVersions,
              downVersions = vDownVersions,
              certDir = vCertDir,
              certName = vCertName,
              keyName = vKeyName,
              caName = vCaName\<rparr>;
       State_Monad.return (Return r)
     }))))))))))"

subsection \<open>The async command\<close>

definition asyncRunE :: "world \<Rightarrow> FlagSet \<Rightarrow> outcome io" where
  "asyncRunE w flags =
     LookupValue flags ''dsn'' (\<lambda>vDsn.
     LookupValue flags ''replication'' (\<lambda>vReplication.
     LookupValue flags ''cluster-name'' (\<lambda>vClusterName.
     LookupValue flags ''dev'' (\<lambda>vDev. do {
       logInfo ''Running migrations in async mode'';
     LookupValue flags ''up'' (\<lambda>vUp.
       case parseVersions (Split vUp CHR '','') [] of
         Inl err \<Rightarrow> State_Monad.return (Return (Some err))
       | Inr vUpVersions \<Rightarrow> do {
       logInfo ''Up migrations'';
     LookupValue flags ''down'' (\<lambda>vDown.
       case parseVersions (Split vDown CHR '','') [] of
         Inl err \<Rightarrow> State_Monad.return (Return (Some err))
       | Inr vDownVersions \<Rightarrow> do {
       logInfo ''Down migrations'';
       if length vUpVersions \<noteq> 0 \<and> length vDownVersions \<noteq> 0 then
         State_Monad.return
           (Return (Some (errorString ''cannot provide both up and down migrations'')))
       else do {
         r \<leftarrow> ParseDSN w vDsn;
         case r of
           Inl err \<Rightarrow> State_Monad.return (Return (Some (Errorf_w ''failed to parse dsn'' err)))
         | Inr opts \<Rightarrow> do {
             logInfo ''Parsed DSN'';
             r \<leftarrow> Open w opts;
             case r of
               Inl err \<Rightarrow>
                 State_Monad.return (Return (Some (Errorf_w ''failed to open connection'' err)))
             | Inr conn \<Rightarrow> do {
                 logInfo ''Opened connection'';
                 r \<leftarrow> NewMigrationManager w
                       \<lparr>optClusterName = vClusterName,
                        optReplicationEnabled = (ToLower vReplication = ''true''),
                        optConn = conn,
                        optConnOptions = opts,
                        optDevelopment = (ToLower vDev = ''true'')\<rparr>;
                 case r of
                   Inl err \<Rightarrow>
                     State_Monad.return
                       (Return (Some (Errorf_w ''failed to create migration manager'' err)))
                 | Inr manager \<Rightarrow>
                     if length vDownVersions \<noteq> 0 then do {
                       logInfo ''Migrating down'';
                       r \<leftarrow> MigrateDownAsync w manager vDownVersions;
                       State_Monad.return (Return r)
                     } else do {
                       logInfo ''Migrating up'';
                       r \<leftarrow> MigrateUpAsync w manager vUpVersions;
                       State_Monad.return (Return r)
                     }
               }
           }
       }
     })})}))))"

section \<open>Reading a run\<close>

text \<open>
  A call that leaves the process, as opposed to a log line: reading the file system,
  talking to the database, driving the migration manager.
\<close>

fun isCall :: "event \<Rightarrow> bool" where
  "isCall (LogInfo msg) = False"
| "isCall (LogPrintf msg) = False"
| "isCall e = True"

definition calls :: "event list \<Rightarrow> event list" where
  "calls tr = filter isCall tr"

fun isClose :: "event \<Rightarrow> bool" where
  "isClose (CallClose c) = True"
| "isClose e = False"

text \<open>Concrete environments and arguments, to run the functions on.\<close>

definition pemText :: bytes where
  "pemText = ''-----BEGIN CERTIFICATE-----''"

definition goodWorld :: world where
  "goodWorld =
     \<lparr>clickhouse_ParseDSN = (\<lambda>s. Inr \<lparr>Addr = s, TLS = None\<rparr>),
      clickhouse_Open = (\<lambda>opts. Inr (Conn 1)),
      conn_Ping = (\<lambda>c. None),
      conn_Close = (\<lambda>c. None),
      os_Stat = (\<lambda>name. None),
      os_ReadFile = (\<lambda>name. Inr pemText),
      tls_LoadX509KeyPair = (\<lambda>certFile keyFile. Inr (KeyPair 1)),
      x509_pemCerts = (\<lambda>pem. if pem = pemText then [CACert 1] else []),
      schema_NewMigrationManager = (\<lambda>mo. Inr (Manager 1)),
      manager_Bootstrap = (\<lambda>m. None),
      manager_RunSquashedMigrations = (\<lambda>m. None),
      manager_MigrateUpSync = (\<lambda>m vs. None),
      manager_MigrateDownSync = (\<lambda>m vs. None),
      manager_MigrateUpAsync = (\<lambda>m vs. None),
      manager_MigrateDownAsync = (\<lambda>m vs. None)\<rparr>"

definition someArgs :: MigrateArgs where
  "someArgs =
     \<lparr>DSN = ''tcp://localhost:9000'', ClusterName = ''cluster'', ReplicationEnabled = False,
      Development = False, UpVersions = [], DownVersions = [], CertDir = ''/tmp/certs'',
      CertName = ''fullchain.crt'', KeyName = ''private_migration.key'',
      CAName = ''partialchain.crt''\<rparr>"

text \<open>The three paths both \<open>createTLSConfig\<close> and \<open>ValidateTLSConfig\<close> build.\<close>

definition certFileOf :: "MigrateArgs \<Rightarrow> string" where
  "certFileOf args = Sprintf_path (CertDir args) (CertName args)"

definition keyFileOf :: "MigrateArgs \<Rightarrow> string" where
  "keyFileOf args = Sprintf_path (CertDir args) (KeyName args)"

definition caFileOf :: "MigrateArgs \<Rightarrow> string" where
  "caFileOf args = Sprintf_path (CertDir args) (CAName args)"

text \<open>
  \<open>badCAWorld\<close>: all three files are there and the key pair loads, but the CA file holds
  no PEM certificate. \<open>missingKeyWorld\<close>: the key file is absent. \<open>pingFailsWorld\<close>:
  the connection opens and the liveness probe fails.
\<close>

definition badCAWorld :: world where
  "badCAWorld = goodWorld\<lparr>os_ReadFile := (\<lambda>name. Inr ''not a certificate'')\<rparr>"

definition noSuchFile :: error where
  "noSuchFile = errorString ''stat /tmp/certs/private_migration.key: no such file or directory''"

definition missingKeyWorld :: world where
  "missingKeyWorld =
     goodWorld\<lparr>os_Stat := (\<lambda>name. if name = ''/tmp/certs/private_migration.key''
                                    then Some noSuchFile else None)\<rparr>"

definition pingFailsWorld :: world where
  "pingFailsWorld = goodWorld\<lparr>conn_Ping := (\<lambda>c. Some (errorString ''i/o timeout''))\<rparr>"

text \<open>
  \<open>upFailsWorld\<close>: everything succeeds up to the up migration, which fails.
  \<open>bootstrapFailsWorld\<close>: the manager's bootstrap step fails.
\<close>

definition upFailsWorld :: world where
  "upFailsWorld =
     goodWorld\<lparr>manager_MigrateUpSync := (\<lambda>m vs. Some (errorString ''migration 3 failed''))\<rparr>"

definition bootstrapFailsWorld :: world where
  "bootstrapFailsWorld =
     goodWorld\<lparr>manager_Bootstrap := (\<lambda>m. Some (errorString ''table locked''))\<rparr>"

text \<open>
  The stages of \<open>RunSyncMigrate\<close> that call out of the wrapper, the call that belongs to
  each (building the TLS configuration is two calls: loading the key pair, reading the
  CA file), and the order the description of the wrapper gives them. The check of the
  arguments comes before all of them and calls nothing.
\<close>

datatype stage = StageDSN | StageLoadKeyPair | StageReadCA | StageOpen | StageManager
  | StageBootstrap | StageSquashed | StageDown | StageUp

fun stageOf :: "event \<Rightarrow> stage option" where
  "stageOf (CallParseDSN s) = Some StageDSN"
| "stageOf (CallLoadX509KeyPair certFile keyFile) = Some StageLoadKeyPair"
| "stageOf (CallReadFile name) = Some StageReadCA"
| "stageOf (CallOpen opts) = Some StageOpen"
| "stageOf (CallNewMigrationManager mo) = Some StageManager"
| "stageOf (CallBootstrap m) = Some StageBootstrap"
| "stageOf (CallRunSquashedMigrations m) = Some StageSquashed"
| "stageOf (CallMigrateDownSync m vs) = Some StageDown"
| "stageOf (CallMigrateUpSync m vs) = Some StageUp"
| "stageOf e = None"

definition stageOrder :: "MigrateArgs \<Rightarrow> stage list" where
  "stageOrder args =
     [StageDSN, StageLoadKeyPair, StageReadCA, StageOpen, StageManager, StageBootstrap,
      StageSquashed, if DownVersions args \<noteq> [] then StageDown else StageUp]"

text \<open>The error the environment answered a call with, if it did.\<close>

fun failure :: "world \<Rightarrow> event \<Rightarrow> error option" where
  "failure w (CallParseDSN s) =
     (case clickhouse_ParseDSN w s of Inl e \<Rightarrow> Some e | Inr opts \<Rightarrow> None)"
| "failure w (CallLoadX509KeyPair certFile keyFile) =
     (case tls_LoadX509KeyPair w certFile keyFile of Inl e \<Rightarrow> Some e | Inr pair \<Rightarrow> None)"
| "failure w (CallReadFile name) =
     (case os_ReadFile w name of Inl e \<Rightarrow> Some e | Inr content \<Rightarrow> None)"
| "failure w (CallOpen opts) =
     (case clickhouse_Open w opts of Inl e \<Rightarrow> Some e | Inr conn \<Rightarrow> None)"
| "failure w (CallNewMigrationManager mo) =
     (case schema_NewMigrationManager w mo of Inl e \<Rightarrow> Some e | Inr m \<Rightarrow> None)"
| "failure w (CallBootstrap m) = manager_Bootstrap w m"
| "failure w (CallRunSquashedMigrations m) = manager_RunSquashedMigrations w m"
| "failure w (CallMigrateDownSync m vs) = manager_MigrateDownSync w m vs"
| "failure w (CallMigrateUpSync m vs) = manager_MigrateUpSync w m vs"
| "failure w e = None"

text \<open>
  How a failure of each stage is reported (C8): wrapped with the text of the stage for
  every stage before the migration itself, and unchanged for the down or up migration.
\<close>

fun report :: "stage \<Rightarrow> error \<Rightarrow> error" where
  "report StageDSN u = Errorf_w ''failed to parse dsn'' u"
| "report StageLoadKeyPair u =
     Errorf_w ''failed to get tls config'' (Errorf_w ''failed to load client key pair'' u)"
| "report StageReadCA u =
     Errorf_w ''failed to get tls config'' (Errorf_w ''failed to read ca certificate'' u)"
| "report StageOpen u = Errorf_w ''failed to open connection'' u"
| "report StageManager u = Errorf_w ''failed to create migration manager'' u"
| "report StageBootstrap u = Errorf_w ''failed to bootstrap migrations'' u"
| "report StageSquashed u = Errorf_w ''failed to run squashed migrations'' u"
| "report StageDown u = u"
| "report StageUp u = u"

text \<open>
  A valid base-10 \<^verbatim>\<open>uint64\<close> (C9): a non-empty string of decimal digits whose value
  is below \<open>2 ^ 64\<close>.
\<close>

definition digitStep :: "nat \<Rightarrow> char \<Rightarrow> nat" where
  "digitStep n c = 10 * n + (of_char c - 48)"

definition decimalValue :: "string \<Rightarrow> nat" where
  "decimalValue s = foldl digitStep 0 s"

definition validUint64 :: "string \<Rightarrow> bool" where
  "validUint64 s \<longleftrightarrow> s \<noteq> [] \<and> list_all isDigit s \<and> decimalValue s < 2 ^ 64"

section \<open>Properties\<close>

lemmas io_defs =
  emit_def call_def logInfo_def logPrintf_def ParseDSN_def Open_def Ping_def Close_def
  Stat_def ReadFile_def LoadX509KeyPair_def NewMigrationManager_def Bootstrap_def
  RunSquashedMigrations_def MigrateUpSync_def MigrateDownSync_def MigrateUpAsync_def
  MigrateDownAsync_def

lemmas flag_defs = LookupValue_def syncFlags_def asyncFlags_def persistentFlags_def

text \<open>
  C2. When both version lists are non-empty, \<open>RunSyncMigrate\<close> returns the error
  "cannot provide both up and down migrations" having only written its first log line:
  no DSN was parsed, no file read, no connection opened. The async command, given
  \<^verbatim>\<open>--up\<close> and \<^verbatim>\<open>--down\<close> values that both parse to non-empty lists, returns the same
  error after its log lines, before parsing the DSN or opening a connection.
\<close>

theorem both_directions_rejected_before_io:
  "(UpVersions args \<noteq> [] \<and> DownVersions args \<noteq> [] \<longrightarrow>
      result (RunSyncMigrate w args) =
        Some (errorString ''cannot provide both up and down migrations'') \<and>
      trace (RunSyncMigrate w args) = [LogInfo ''Starting TLS migrator''] \<and>
      calls (trace (RunSyncMigrate w args)) = []) \<and>
   (parseVersions (Split vUp CHR '','') [] = Inr ups \<and> ups \<noteq> [] \<and>
    parseVersions (Split vDown CHR '','') [] = Inr downs \<and> downs \<noteq> [] \<longrightarrow>
      result (asyncRunE w (asyncFlags vDsn vRep vCluster vDev vUp vDown)) =
        Return (Some (errorString ''cannot provide both up and down migrations'')) \<and>
      calls (trace (asyncRunE w (asyncFlags vDsn vRep vCluster vDev vUp vDown))) = [])"
  by (simp add: RunSyncMigrate_def asyncRunE_def result_def trace_def calls_def io_defs flag_defs)

theorem both_directions_rejected_before_io_witness:
  "result (RunSyncMigrate goodWorld (someArgs\<lparr>UpVersions := [1], DownVersions := [2]\<rparr>)) =
     Some (errorString ''cannot provide both up and down migrations'') \<and>
   calls (trace (RunSyncMigrate goodWorld (someArgs\<lparr>UpVersions := [1], DownVersions := [2]\<rparr>))) = [] \<and>
   result (asyncRunE goodWorld (asyncFlags ''tcp://localhost:9000'' ''false'' ''cluster'' ''false'' ''1'' ''2'')) =
     Return (Some (errorString ''cannot provide both up and down migrations'')) \<and>
   calls (trace (asyncRunE goodWorld
     (asyncFlags ''tcp://localhost:9000'' ''false'' ''cluster'' ''false'' ''1'' ''2''))) = []"
proof -
  have up: "parseVersions (Split ''1'' CHR '','') [] = Inr [1]" by code_simp
  have down: "parseVersions (Split ''2'' CHR '','') [] = Inr [2]" by code_simp
  show ?thesis
    using both_directions_rejected_before_io
      [of "someArgs\<lparr>UpVersions := [1], DownVersions := [2]\<rparr>" goodWorld
          "''1''" "[1]" "''2''" "[2]" "''tcp://localhost:9000''" "''false''" "''cluster''"
          "''false''"]
      up down
    by (simp add: someArgs_def calls_def)
qed

lemmas file_defs = certFileOf_def keyFileOf_def caFileOf_def

lemmas pool_defs = AppendCertsFromPEM_def NewCertPool_def

lemmas world_defs = goodWorld_def badCAWorld_def missingKeyWorld_def pingFailsWorld_def
  upFailsWorld_def bootstrapFailsWorld_def pemText_def someArgs_def

text \<open>
  C3. Whenever \<open>TestConnection\<close> has opened a connection (the open call was made and
  answered with a connection), the last thing it does is close that connection, and it
  closes it once: the run ends with the open call, the ping, the success log line when
  the ping succeeded, and the close, whatever the ping answered.
\<close>

theorem TestConnection_closes_opened_connection:
  "CallOpen opts \<in> set (trace (TestConnection w args)) \<Longrightarrow>
   clickhouse_Open w opts = Inr conn \<Longrightarrow>
     last (trace (TestConnection w args)) = CallClose conn \<and>
     filter isClose (trace (TestConnection w args)) = [CallClose conn] \<and>
     (\<exists>before. trace (TestConnection w args) =
        before @ [CallOpen opts, CallPing conn] @
        (case conn_Ping w conn of
           None \<Rightarrow> [LogInfo ''Database connection test successful'']
         | Some err \<Rightarrow> []) @
        [CallClose conn])"
  by (auto simp add: TestConnection_def createTLSConfig_def trace_def io_defs Let_def
        split: sum.splits option.splits)

theorem TestConnection_closes_opened_connection_witness:
  "result (TestConnection pingFailsWorld someArgs) =
     Some (Errorf_w ''failed to ping database'' (errorString ''i/o timeout'')) \<and>
   last (trace (TestConnection pingFailsWorld someArgs)) = CallClose (Conn 1) \<and>
   filter isClose (trace (TestConnection pingFailsWorld someArgs)) = [CallClose (Conn 1)]"
proof -
  let ?opts = "\<lparr>Addr = ''tcp://localhost:9000'',
                TLS = Some \<lparr>Certificates = [KeyPair 1], RootCAs = [CACert 1]\<rparr>\<rparr>"
  have opened: "CallOpen ?opts \<in> set (trace (TestConnection pingFailsWorld someArgs))"
    by (simp add: TestConnection_def createTLSConfig_def trace_def io_defs Let_def
          world_defs pool_defs)
  have answered: "clickhouse_Open pingFailsWorld ?opts = Inr (Conn 1)"
    by (simp add: world_defs)
  have ret: "result (TestConnection pingFailsWorld someArgs) =
      Some (Errorf_w ''failed to ping database'' (errorString ''i/o timeout''))"
    by (simp add: TestConnection_def createTLSConfig_def result_def io_defs Let_def
          world_defs pool_defs)
  show ?thesis
    using TestConnection_closes_opened_connection [OF opened answered] ret by simp
qed

text \<open>
  C4. When the certificate, key and CA files can all be stat'ed, the key pair loads and
  the CA file is read but holds no PEM certificate, \<open>ValidateTLSConfig\<close> returns the
  error "failed to parse CA certificate". In any situation where one of the three files
  cannot be stat'ed it returns one of the three "not accessible" errors instead, which
  differs from the CA-parse error both as a value and in its text.
\<close>

theorem ValidateTLSConfig_malformed_CA_is_parse_error:
  assumes "os_Stat w (certFileOf args) = None"
    and "os_Stat w (keyFileOf args) = None"
    and "os_Stat w (caFileOf args) = None"
    and "tls_LoadX509KeyPair w (certFileOf args) (keyFileOf args) = Inr pair"
    and "os_ReadFile w (caFileOf args) = Inr pem"
    and "x509_pemCerts w pem = []"
    and "os_Stat w' (certFileOf args') \<noteq> None \<or> os_Stat w' (keyFileOf args') \<noteq> None \<or>
         os_Stat w' (caFileOf args') \<noteq> None"
  shows "result (ValidateTLSConfig w args) = Some (errorString ''failed to parse CA certificate'') \<and>
    (\<exists>u. result (ValidateTLSConfig w' args') \<in>
        {Some (Errorf_w ''certificate file not accessible'' u),
         Some (Errorf_w ''key file not accessible'' u),
         Some (Errorf_w ''CA file not accessible'' u)}) \<and>
    result (ValidateTLSConfig w' args') \<noteq> result (ValidateTLSConfig w args) \<and>
    map_option Error (result (ValidateTLSConfig w' args')) \<noteq>
      map_option Error (result (ValidateTLSConfig w args))"
proof -
  have parse: "result (ValidateTLSConfig w args) =
      Some (errorString ''failed to parse CA certificate'')"
    using assms(1-6)
    by (simp add: ValidateTLSConfig_def result_def io_defs Let_def pool_defs file_defs)
  have missing: "\<exists>u. result (ValidateTLSConfig w' args') \<in>
        {Some (Errorf_w ''certificate file not accessible'' u),
         Some (Errorf_w ''key file not accessible'' u),
         Some (Errorf_w ''CA file not accessible'' u)}"
    using assms(7)
    by (auto simp add: ValidateTLSConfig_def result_def io_defs Let_def file_defs
          split: option.splits)
  from missing show ?thesis unfolding parse by (auto simp: Errorf_w_def)
qed

theorem ValidateTLSConfig_malformed_CA_is_parse_error_witness:
  "result (ValidateTLSConfig badCAWorld someArgs) =
     Some (errorString ''failed to parse CA certificate'') \<and>
   result (ValidateTLSConfig missingKeyWorld someArgs) =
     Some (Errorf_w ''key file not accessible'' noSuchFile) \<and>
   result (ValidateTLSConfig missingKeyWorld someArgs) \<noteq>
     result (ValidateTLSConfig badCAWorld someArgs)"
proof -
  have st: "os_Stat badCAWorld (certFileOf someArgs) = None"
    "os_Stat badCAWorld (keyFileOf someArgs) = None"
    "os_Stat badCAWorld (caFileOf someArgs) = None"
    by (simp_all add: world_defs)
  have pair: "tls_LoadX509KeyPair badCAWorld (certFileOf someArgs) (keyFileOf someArgs) =
      Inr (KeyPair 1)"
    by (simp add: world_defs)
  have rd: "os_ReadFile badCAWorld (caFileOf someArgs) = Inr ''not a certificate''"
    by (simp add: world_defs)
  have pem: "x509_pemCerts badCAWorld ''not a certificate'' = []"
    by (simp add: world_defs)
  have gone: "os_Stat missingKeyWorld (certFileOf someArgs) \<noteq> None \<or>
      os_Stat missingKeyWorld (keyFileOf someArgs) \<noteq> None \<or>
      os_Stat missingKeyWorld (caFileOf someArgs) \<noteq> None"
    by (simp add: world_defs file_defs Sprintf_path_def)
  have key: "result (ValidateTLSConfig missingKeyWorld someArgs) =
      Some (Errorf_w ''key file not accessible'' noSuchFile)"
    by (simp add: ValidateTLSConfig_def result_def io_defs Let_def world_defs Sprintf_path_def)
  show ?thesis
    using ValidateTLSConfig_malformed_CA_is_parse_error [OF st pair rd pem gone] key by auto
qed

text \<open>
  C5. When the key pair loads and the CA file is read but holds no PEM certificate,
  \<open>createTLSConfig\<close> returns a configuration (with an empty pool of root CAs) and no
  error, while \<open>ValidateTLSConfig\<close> in the same situation fails; when the three files can
  be stat'ed, it fails with the CA-parse error.
\<close>

theorem createTLSConfig_accepts_malformed_CA:
  assumes "tls_LoadX509KeyPair w (certFileOf args) (keyFileOf args) = Inr pair"
    and "os_ReadFile w (caFileOf args) = Inr pem"
    and "x509_pemCerts w pem = []"
  shows "result (createTLSConfig w args) = Inr \<lparr>Certificates = [pair], RootCAs = []\<rparr> \<and>
    result (ValidateTLSConfig w args) \<noteq> None \<and>
    (os_Stat w (certFileOf args) = None \<and> os_Stat w (keyFileOf args) = None \<and>
     os_Stat w (caFileOf args) = None \<longrightarrow>
       result (ValidateTLSConfig w args) = Some (errorString ''failed to parse CA certificate''))"
  using assms
  by (simp add: createTLSConfig_def ValidateTLSConfig_def result_def io_defs Let_def pool_defs
        file_defs split: option.splits)

theorem createTLSConfig_accepts_malformed_CA_witness:
  "result (createTLSConfig badCAWorld someArgs) = Inr \<lparr>Certificates = [KeyPair 1], RootCAs = []\<rparr> \<and>
   result (ValidateTLSConfig badCAWorld someArgs) =
     Some (errorString ''failed to parse CA certificate'')"
proof -
  have pair: "tls_LoadX509KeyPair badCAWorld (certFileOf someArgs) (keyFileOf someArgs) =
      Inr (KeyPair 1)"
    by (simp add: world_defs)
  have rd: "os_ReadFile badCAWorld (caFileOf someArgs) = Inr ''not a certificate''"
    by (simp add: world_defs)
  have pem: "x509_pemCerts badCAWorld ''not a certificate'' = []"
    by (simp add: world_defs)
  have st: "os_Stat badCAWorld (certFileOf someArgs) = None \<and>
      os_Stat badCAWorld (keyFileOf someArgs) = None \<and>
      os_Stat badCAWorld (caFileOf someArgs) = None"
    by (simp add: world_defs)
  show ?thesis using createTLSConfig_accepts_malformed_CA [OF pair rd pem] st by simp
qed

text \<open>
  C6. \<open>ValidateTLSConfig\<close> is strictly stronger than \<open>createTLSConfig\<close>: in every
  environment and for all arguments, if \<open>ValidateTLSConfig\<close> succeeds then so does
  \<open>createTLSConfig\<close>; and in \<open>badCAWorld\<close>, where the three files can be stat'ed, the
  key pair loads and the CA file holds no PEM certificate, \<open>createTLSConfig\<close> succeeds
  while \<open>ValidateTLSConfig\<close> fails.
\<close>

theorem ValidateTLSConfig_strictly_stronger:
  "(result (ValidateTLSConfig w args) = None \<longrightarrow>
      (\<exists>cfg. result (createTLSConfig w args) = Inr cfg)) \<and>
   os_Stat badCAWorld (certFileOf someArgs) = None \<and>
   os_Stat badCAWorld (keyFileOf someArgs) = None \<and>
   os_Stat badCAWorld (caFileOf someArgs) = None \<and>
   tls_LoadX509KeyPair badCAWorld (certFileOf someArgs) (keyFileOf someArgs) = Inr (KeyPair 1) \<and>
   result (createTLSConfig badCAWorld someArgs) =
     Inr \<lparr>Certificates = [KeyPair 1], RootCAs = []\<rparr> \<and>
   result (ValidateTLSConfig badCAWorld someArgs) =
     Some (errorString ''failed to parse CA certificate'')"
proof -
  have stronger: "result (ValidateTLSConfig w args) = None \<longrightarrow>
      (\<exists>cfg. result (createTLSConfig w args) = Inr cfg)"
    by (simp add: createTLSConfig_def ValidateTLSConfig_def result_def io_defs Let_def pool_defs
          split: option.splits sum.splits)
  have env: "os_Stat badCAWorld (certFileOf someArgs) = None"
    "os_Stat badCAWorld (keyFileOf someArgs) = None"
    "os_Stat badCAWorld (caFileOf someArgs) = None"
    "tls_LoadX509KeyPair badCAWorld (certFileOf someArgs) (keyFileOf someArgs) = Inr (KeyPair 1)"
    by (simp_all add: world_defs)
  have loader: "result (createTLSConfig badCAWorld someArgs) =
      Inr \<lparr>Certificates = [KeyPair 1], RootCAs = []\<rparr>"
    by (simp add: createTLSConfig_def result_def io_defs Let_def pool_defs world_defs)
  have validator: "result (ValidateTLSConfig badCAWorld someArgs) =
      Some (errorString ''failed to parse CA certificate'')"
    by (simp add: ValidateTLSConfig_def result_def io_defs Let_def pool_defs world_defs)
  from stronger env loader validator show ?thesis by blast
qed

theorem ValidateTLSConfig_strictly_stronger_witness:
  "result (ValidateTLSConfig goodWorld someArgs) = None \<and>
   (\<exists>cfg. result (createTLSConfig goodWorld someArgs) = Inr cfg)"
proof -
  have ok: "result (ValidateTLSConfig goodWorld someArgs) = None"
    by (simp add: ValidateTLSConfig_def result_def io_defs Let_def pool_defs world_defs)
  show ?thesis using ValidateTLSConfig_strictly_stronger [of goodWorld someArgs] ok by blast
qed

text \<open>
  C7. With an empty down list, in every environment where the run gets to the migration
  (the DSN parses, the key pair loads, the CA file is read, the connection opens, the
  manager is constructed for that connection, and its bootstrap and squashed migrations
  succeed), the last action of \<open>RunSyncMigrate\<close> is the call of \<open>MigrateUpSync\<close> on
  that manager with the up list exactly as given, the empty list included; it is the
  only up migration call, what \<open>RunSyncMigrate\<close> returns is what that call returns,
  and \<open>MigrateDownSync\<close> is not called.
\<close>

theorem up_versions_forwarded_as_given:
  assumes "DownVersions args = []"
    and "clickhouse_ParseDSN w (DSN args) = Inr opts"
    and "tls_LoadX509KeyPair w (certFileOf args) (keyFileOf args) = Inr pair"
    and "os_ReadFile w (caFileOf args) = Inr pem"
    and "tlsConfig = \<lparr>Certificates = [pair], RootCAs = fst (AppendCertsFromPEM w NewCertPool pem)\<rparr>"
    and "clickhouse_Open w (opts\<lparr>TLS := Some tlsConfig\<rparr>) = Inr conn"
    and "schema_NewMigrationManager w
           \<lparr>optClusterName = ClusterName args,
            optReplicationEnabled = ReplicationEnabled args,
            optConn = conn,
            optConnOptions = opts\<lparr>TLS := Some tlsConfig\<rparr>,
            optDevelopment = Development args\<rparr> = Inr m"
    and "manager_Bootstrap w m = None"
    and "manager_RunSquashedMigrations w m = None"
  shows "last (trace (RunSyncMigrate w args)) = CallMigrateUpSync m (UpVersions args) \<and>
     filter (\<lambda>e. stageOf e = Some StageUp) (trace (RunSyncMigrate w args)) =
       [CallMigrateUpSync m (UpVersions args)] \<and>
     result (RunSyncMigrate w args) = manager_MigrateUpSync w m (UpVersions args) \<and>
     (\<forall>m' vs. CallMigrateDownSync m' vs \<notin> set (trace (RunSyncMigrate w args)))"
  using assms
  by (simp add: RunSyncMigrate_def createTLSConfig_def result_def trace_def io_defs Let_def
        file_defs)

theorem up_versions_forwarded_as_given_witness:
  "last (trace (RunSyncMigrate goodWorld someArgs)) = CallMigrateUpSync (Manager 1) [] \<and>
   filter (\<lambda>e. stageOf e = Some StageUp) (trace (RunSyncMigrate goodWorld someArgs)) =
     [CallMigrateUpSync (Manager 1) []] \<and>
   last (trace (RunSyncMigrate goodWorld (someArgs\<lparr>UpVersions := [1, 2, 3]\<rparr>))) =
     CallMigrateUpSync (Manager 1) [1, 2, 3] \<and>
   filter (\<lambda>e. stageOf e = Some StageUp)
     (trace (RunSyncMigrate goodWorld (someArgs\<lparr>UpVersions := [1, 2, 3]\<rparr>))) =
     [CallMigrateUpSync (Manager 1) [1, 2, 3]]"
proof -
  let ?given = "someArgs\<lparr>UpVersions := [1, 2, 3]\<rparr>"
  let ?opts = "\<lparr>Addr = ''tcp://localhost:9000'', TLS = None\<rparr>"
  let ?tls = "\<lparr>Certificates = [KeyPair 1], RootCAs = [CACert 1]\<rparr>"
  have tls: "?tls = \<lparr>Certificates = [KeyPair 1],
      RootCAs = fst (AppendCertsFromPEM goodWorld NewCertPool pemText)\<rparr>"
    by (simp add: pool_defs world_defs)
  have none: "last (trace (RunSyncMigrate goodWorld someArgs)) =
        CallMigrateUpSync (Manager 1) (UpVersions someArgs) \<and>
      filter (\<lambda>e. stageOf e = Some StageUp) (trace (RunSyncMigrate goodWorld someArgs)) =
        [CallMigrateUpSync (Manager 1) (UpVersions someArgs)]"
    using up_versions_forwarded_as_given
      [of someArgs goodWorld ?opts "KeyPair 1" pemText ?tls "Conn 1" "Manager 1", OF _ _ _ _ tls]
    by (simp add: world_defs)
  have given: "last (trace (RunSyncMigrate goodWorld ?given)) =
        CallMigrateUpSync (Manager 1) (UpVersions ?given) \<and>
      filter (\<lambda>e. stageOf e = Some StageUp) (trace (RunSyncMigrate goodWorld ?given)) =
        [CallMigrateUpSync (Manager 1) (UpVersions ?given)]"
    using up_versions_forwarded_as_given
      [of ?given goodWorld ?opts "KeyPair 1" pemText ?tls "Conn 1" "Manager 1", OF _ _ _ _ tls]
    by (simp add: world_defs)
  from none given show ?thesis by (simp add: someArgs_def)
qed

text \<open>
  What one run of \<open>RunSyncMigrate\<close> returned and did, all stages at once; the theorem
  for C8 reads it off.
\<close>

lemma report_migration [simp]:
  "map_option (report StageUp) x = x" "map_option (report StageDown) x = x"
  by (cases x; simp)+

lemma RunSyncMigrate_run:
  assumes "run_state (RunSyncMigrate w args) [] = (r, tr)"
  shows "(UpVersions args \<noteq> [] \<and> DownVersions args \<noteq> [] \<longrightarrow>
      calls tr = [] \<and>
      r = Some (errorString ''cannot provide both up and down migrations'')) \<and>
   (UpVersions args = [] \<or> DownVersions args = [] \<longrightarrow>
      (\<exists>done ev. calls tr = done @ [ev] \<and>
         prefix (map stageOf (done @ [ev])) (map Some (stageOrder args)) \<and>
         (\<forall>e \<in> set done. failure w e = None) \<and>
         (failure w ev = None \<longrightarrow> map stageOf (done @ [ev]) = map Some (stageOrder args)) \<and>
         r = map_option (report (the (stageOf ev))) (failure w ev)))"
  using assms
  apply (simp add: RunSyncMigrate_def createTLSConfig_def calls_def io_defs Let_def stageOrder_def
        split: sum.splits option.splits if_splits)
  apply (auto simp: prefix_def)
  done

text \<open>
  C8, in the form the code satisfies. When both version lists are non-empty, \<open>RunSyncMigrate\<close> makes no
  call and returns the error of the argument check. Otherwise the calls it makes are a
  beginning of the fixed order DSN parse, key pair load, CA read, connection open,
  manager construction, bootstrap, squashed migrations, then the down migration when
  the down list is non-empty and the up migration when it is empty, each at most once;
  every call but the last succeeded; the run goes through the whole order unless the
  last call failed; and it returns \<^verbatim>\<open>nil\<close> when the last call succeeded and otherwise
  the failure of the last call, wrapped with the text of its stage for the stages
  before the migration and unchanged for the down or up migration.
\<close>

theorem RunSyncMigrate_stage_order_and_errors:
  "(UpVersions args \<noteq> [] \<and> DownVersions args \<noteq> [] \<longrightarrow>
      calls (trace (RunSyncMigrate w args)) = [] \<and>
      result (RunSyncMigrate w args) =
        Some (errorString ''cannot provide both up and down migrations'')) \<and>
   (UpVersions args = [] \<or> DownVersions args = [] \<longrightarrow>
      (\<exists>done ev. calls (trace (RunSyncMigrate w args)) = done @ [ev] \<and>
         prefix (map stageOf (done @ [ev])) (map Some (stageOrder args)) \<and>
         (\<forall>e \<in> set done. failure w e = None) \<and>
         (failure w ev = None \<longrightarrow> map stageOf (done @ [ev]) = map Some (stageOrder args)) \<and>
         result (RunSyncMigrate w args) =
           map_option (report (the (stageOf ev))) (failure w ev)))"
  using RunSyncMigrate_run
    [of w args "result (RunSyncMigrate w args)" "trace (RunSyncMigrate w args)"]
  by (simp add: result_def trace_def)

theorem RunSyncMigrate_stage_order_and_errors_witness:
  "calls (trace (RunSyncMigrate goodWorld (someArgs\<lparr>UpVersions := [1], DownVersions := [2]\<rparr>))) = [] \<and>
   (\<exists>done ev. calls (trace (RunSyncMigrate bootstrapFailsWorld someArgs)) = done @ [ev] \<and>
      prefix (map stageOf (done @ [ev])) (map Some (stageOrder someArgs)) \<and>
      (\<forall>e \<in> set done. failure bootstrapFailsWorld e = None) \<and>
      result (RunSyncMigrate bootstrapFailsWorld someArgs) =
        map_option (report (the (stageOf ev))) (failure bootstrapFailsWorld ev)) \<and>
   result (RunSyncMigrate bootstrapFailsWorld someArgs) =
     Some (Errorf_w ''failed to bootstrap migrations'' (errorString ''table locked''))"
proof -
  have both: "UpVersions (someArgs\<lparr>UpVersions := [1], DownVersions := [2]\<rparr>) \<noteq> [] \<and>
      DownVersions (someArgs\<lparr>UpVersions := [1], DownVersions := [2]\<rparr>) \<noteq> []"
    by simp
  have one: "UpVersions someArgs = [] \<or> DownVersions someArgs = []"
    by (simp add: someArgs_def)
  have ret: "result (RunSyncMigrate bootstrapFailsWorld someArgs) =
      Some (Errorf_w ''failed to bootstrap migrations'' (errorString ''table locked''))"
    by (simp add: RunSyncMigrate_def createTLSConfig_def result_def io_defs Let_def pool_defs
          world_defs)
  show ?thesis
    using RunSyncMigrate_stage_order_and_errors
        [of "someArgs\<lparr>UpVersions := [1], DownVersions := [2]\<rparr>" goodWorld]
      RunSyncMigrate_stage_order_and_errors [of someArgs bootstrapFailsWorld]
      both one ret
    by blast
qed

text \<open>
  C8 as stated fails at the last stage: when the up migration fails, \<open>RunSyncMigrate\<close>
  returns the manager's error itself, which wraps nothing and carries no text of the
  wrapper.
\<close>

theorem migration_error_is_not_wrapped:
  "manager_MigrateUpSync upFailsWorld (Manager 1) (UpVersions someArgs) =
     Some (errorString ''migration 3 failed'') \<and>
   result (RunSyncMigrate upFailsWorld someArgs) = Some (errorString ''migration 3 failed'') \<and>
   Unwrap (errorString ''migration 3 failed'') = None"
  by (simp add: RunSyncMigrate_def createTLSConfig_def result_def io_defs Let_def pool_defs
        world_defs)

subsection \<open>Parsing version lists\<close>

text \<open>
  \<open>ParseUint\<close> accepts exactly the valid base-10 \<^verbatim>\<open>uint64\<close> strings, and returns their
  value. The loop keeps \<open>unat n\<close> equal to the value of the digits read so far.
\<close>

lemma foldl_digitStep_ge: "a \<le> foldl digitStep a cs"
proof (induction cs arbitrary: a)
  case Nil then show ?case by simp
next
  case (Cons c cs)
  have "a \<le> digitStep a c" by (simp add: digitStep_def)
  also have "\<dots> \<le> foldl digitStep (digitStep a c) cs" by (rule Cons.IH)
  finally show ?case by simp
qed

lemma unat_cutoff: "unat cutoff = 1844674407370955162"
  by (simp add: cutoff_def)

lemma maxVal_top: "\<not> (x > maxVal)"
proof -
  have "maxVal = - 1" by (simp add: maxVal_def)
  have "x \<le> - 1" by (rule max_word_max)
  with \<open>maxVal = - 1\<close> have "x \<le> maxVal" by simp
  then show ?thesis by (simp add: not_less)
qed

lemma unat_digit:
  assumes "isDigit c"
  shows "unat (word_of_nat (of_char c - 48) :: uint64) = of_char c - 48"
proof -
  have "(of_char c :: nat) - 48 < 10" using assms by (auto simp: isDigit_def)
  then show ?thesis by (simp add: unat_of_nat)
qed

lemma step_mult:
  assumes "\<not> n \<ge> cutoff"
  shows "unat (n * 10) = unat n * 10"
proof -
  have "unat n < 1844674407370955162" using assms by (simp add: word_le_nat_alt unat_cutoff)
  then have "unat n * unat (10 :: uint64) < 2 ^ LENGTH(64)" by simp
  then have "unat (n * 10) = unat n * unat (10 :: uint64)" by (simp only: unat_mult_lem)
  then show ?thesis by simp
qed

lemma step_add:
  fixes n :: uint64
  assumes "isDigit c" "\<not> n \<ge> cutoff"
  shows "(n * 10 + word_of_nat (of_char c - 48) < n * 10) \<longleftrightarrow> 2 ^ 64 \<le> digitStep (unat n) c"
    and "\<not> (n * 10 + word_of_nat (of_char c - 48) < n * 10) \<Longrightarrow>
           unat (n * 10 + word_of_nat (of_char c - 48)) = digitStep (unat n) c"
proof -
  let ?d = "word_of_nat (of_char c - 48) :: uint64"
  have m: "unat (n * 10) = unat n * 10" by (rule step_mult [OF assms(2)])
  have d: "unat ?d = of_char c - 48" by (rule unat_digit [OF assms(1)])
  have no: "n * 10 \<le> n * 10 + ?d \<longleftrightarrow> unat (n * 10) + unat ?d < 2 ^ LENGTH(64)"
    by (rule no_olen_add_nat)
  show "(n * 10 + ?d < n * 10) \<longleftrightarrow> 2 ^ 64 \<le> digitStep (unat n) c"
    using no by (simp add: m d digitStep_def not_le [symmetric] mult.commute)
  assume "\<not> (n * 10 + ?d < n * 10)"
  then have "unat (n * 10) + unat ?d < 2 ^ LENGTH(64)" using no by (simp add: not_less)
  then have "unat (n * 10 + ?d) = unat (n * 10) + unat ?d" by (simp only: unat_add_lem)
  then show "unat (n * 10 + ?d) = digitStep (unat n) c"
    by (simp add: m d digitStep_def mult.commute)
qed

lemma parseUintLoop_Inr:
  "parseUintLoop cs n = Inr v \<longleftrightarrow>
     list_all isDigit cs \<and> foldl digitStep (unat n) cs < 2 ^ 64 \<and> unat v = foldl digitStep (unat n) cs"
proof (induction cs arbitrary: n)
  case Nil
  have "unat n < 2 ^ 64" using unsigned_less [of n, where 'a = nat] by simp
  then show ?case by (auto simp: word_unat_eq_iff)
next
  case (Cons c cs)
  show ?case
  proof (cases "isDigit c")
    case False then show ?thesis by simp
  next
    case d: True
    show ?thesis
    proof (cases "n \<ge> cutoff")
      case True
      then have "unat cutoff \<le> unat n" by (simp add: word_le_nat_alt)
      then have "2 ^ 64 \<le> digitStep (unat n) c" by (simp add: unat_cutoff digitStep_def)
      also have "\<dots> \<le> foldl digitStep (digitStep (unat n) c) cs" by (rule foldl_digitStep_ge)
      finally show ?thesis using d True by simp
    next
      case nc: False
      show ?thesis
      proof (cases "n * 10 + word_of_nat (of_char c - 48) < n * 10")
        case True
        then have "2 ^ 64 \<le> digitStep (unat n) c" using step_add(1) [OF d nc] by simp
        also have "\<dots> \<le> foldl digitStep (digitStep (unat n) c) cs" by (rule foldl_digitStep_ge)
        finally show ?thesis using d nc True by (simp add: Let_def)
      next
        case False
        have u: "unat (n * 10 + word_of_nat (of_char c - 48)) = digitStep (unat n) c"
          using step_add(2) [OF d nc False] .
        show ?thesis using d nc False by (simp add: Let_def maxVal_top Cons.IH u)
      qed
    qed
  qed
qed

lemma ParseUint_Inr: "ParseUint s = Inr v \<longleftrightarrow> validUint64 s \<and> unat v = decimalValue s"
proof (cases "s = []")
  case True then show ?thesis by (simp add: ParseUint_def validUint64_def)
next
  case False
  show ?thesis
  proof (cases "parseUintLoop s 0")
    case (Inl e)
    have "\<not> (list_all isDigit s \<and> foldl digitStep 0 s < 2 ^ 64)"
    proof
      assume a: "list_all isDigit s \<and> foldl digitStep 0 s < 2 ^ 64"
      let ?v = "word_of_nat (foldl digitStep 0 s) :: uint64"
      have "unat ?v = foldl digitStep 0 s" using a by (simp add: unat_of_nat)
      then have "parseUintLoop s 0 = Inr ?v" using a by (simp add: parseUintLoop_Inr)
      with Inl show False by simp
    qed
    then show ?thesis using False Inl by (auto simp: ParseUint_def validUint64_def decimalValue_def)
  next
    case (Inr n)
    then show ?thesis using False parseUintLoop_Inr [of s 0 n] parseUintLoop_Inr [of s 0 v]
      by (auto simp: ParseUint_def validUint64_def decimalValue_def)
  qed
qed



lemma parseVersions_Inl_form:
  "parseVersions toks acc = Inl e \<Longrightarrow> \<exists>u. e = Errorf_w ''failed to parse version'' u"
  by (induction toks arbitrary: acc) (auto split: if_splits sum.splits)

lemma parseVersions_bad_token:
  "\<exists>tok \<in> set toks. tok \<noteq> [] \<and> \<not> validUint64 tok \<Longrightarrow> \<exists>e. parseVersions toks acc = Inl e"
proof (induction toks arbitrary: acc)
  case Nil
  then show ?case by simp
next
  case (Cons t ts)
  show ?case
  proof (cases "t = []")
    case True
    then show ?thesis using Cons by auto
  next
    case False
    show ?thesis
    proof (cases "ParseUint t")
      case (Inl e)
      then show ?thesis using False by simp
    next
      case (Inr v)
      then have "validUint64 t" by (simp add: ParseUint_Inr)
      then have "\<exists>tok \<in> set ts. tok \<noteq> [] \<and> \<not> validUint64 tok" using Cons.prems by auto
      then show ?thesis using Cons.IH False Inr by simp
    qed
  qed
qed

lemma parseVersions_skips_empty:
  "parseVersions toks acc = parseVersions (filter (\<lambda>t. t \<noteq> []) toks) acc"
  by (induction toks arbitrary: acc) (auto split: sum.splits)

text \<open>
  C9, in the form the code satisfies. The value "1,2,3" parses to the list 1, 2, 3 in that order. Whenever
  the \<^verbatim>\<open>--up\<close> or the \<^verbatim>\<open>--down\<close> value has a non-empty piece that is not a valid
  base-10 \<^verbatim>\<open>uint64\<close>, the sync command returns an error "failed to parse version: ..."
  having done nothing else: \<open>RunSyncMigrate\<close>, whose first action is a log line, was
  not called.
\<close>

theorem sync_rejects_malformed_version:
  "parseVersions (Split ''1,2,3'' CHR '','') [] = Inr [1, 2, 3] \<and>
   ((\<exists>tok \<in> set (Split vUp CHR '',''). tok \<noteq> [] \<and> \<not> validUint64 tok) \<or>
    (\<exists>tok \<in> set (Split vDown CHR '',''). tok \<noteq> [] \<and> \<not> validUint64 tok) \<longrightarrow>
      (\<exists>u. run_state (syncRunE w (syncFlags vDsn vRep vCluster vDev vUp vDown)) [] =
         (Return (Some (Errorf_w ''failed to parse version'' u)), [])))"
proof -
  have ex: "parseVersions (Split ''1,2,3'' CHR '','') [] = Inr [1, 2, 3]" by code_simp
  have bad: "\<exists>u. run_state (syncRunE w (syncFlags vDsn vRep vCluster vDev vUp vDown)) [] =
         (Return (Some (Errorf_w ''failed to parse version'' u)), [])"
    if "(\<exists>tok \<in> set (Split vUp CHR '',''). tok \<noteq> [] \<and> \<not> validUint64 tok) \<or>
        (\<exists>tok \<in> set (Split vDown CHR '',''). tok \<noteq> [] \<and> \<not> validUint64 tok)"
  proof (cases "parseVersions (Split vUp CHR '','') []")
    case (Inl e)
    then obtain u where "e = Errorf_w ''failed to parse version'' u"
      using parseVersions_Inl_form by blast
    then show ?thesis using Inl by (auto simp add: syncRunE_def flag_defs)
  next
    case (Inr ups)
    then have "\<exists>tok \<in> set (Split vDown CHR '',''). tok \<noteq> [] \<and> \<not> validUint64 tok"
      using that parseVersions_bad_token [of "Split vUp CHR '',''" "[]"] by auto
    then obtain e where e: "parseVersions (Split vDown CHR '','') [] = Inl e"
      using parseVersions_bad_token by blast
    then obtain u where "e = Errorf_w ''failed to parse version'' u"
      using parseVersions_Inl_form by blast
    then show ?thesis using Inr e by (auto simp add: syncRunE_def flag_defs)
  qed
  from ex bad show ?thesis by blast
qed

theorem sync_rejects_malformed_version_witness:
  "(\<exists>tok \<in> set (Split ''1,x,3'' CHR '',''). tok \<noteq> [] \<and> \<not> validUint64 tok) \<and>
   (\<exists>u. run_state (syncRunE goodWorld
            (syncFlags ''tcp://localhost:9000'' ''false'' ''cluster'' ''false'' ''1,x,3'' [])) [] =
      (Return (Some (Errorf_w ''failed to parse version'' u)), []))"
proof -
  have pieces: "Split ''1,x,3'' CHR '','' = [''1'', ''x'', ''3'']" by code_simp
  have "\<not> validUint64 ''x''" by (simp add: validUint64_def isDigit_def)
  then have bad: "\<exists>tok \<in> set (Split ''1,x,3'' CHR '',''). tok \<noteq> [] \<and> \<not> validUint64 tok"
    unfolding pieces by simp
  show ?thesis
    using sync_rejects_malformed_version
        [of "''1,x,3''" "[]" goodWorld "''tcp://localhost:9000''" "''false''" "''cluster''"
            "''false''"]
      bad
    by blast
qed

text \<open>
  C9 as stated fails for an empty piece: "1,,3" has the piece "", which is not a valid
  base-10 \<^verbatim>\<open>uint64\<close>; it is skipped, the value parses to 1, 3, and the sync command
  does not return a parse error.
\<close>

theorem sync_skips_empty_piece:
  "Split ''1,,3'' CHR '','' = [''1'', [], ''3''] \<and>
   \<not> validUint64 [] \<and>
   parseVersions (Split ''1,,3'' CHR '','') [] = Inr [1, 3] \<and>
   result (syncRunE goodWorld
     (syncFlags ''tcp://localhost:9000'' ''false'' ''cluster'' ''false'' ''1,,3'' [])) =
     Panic nilDereference"
proof -
  have pieces: "Split ''1,,3'' CHR '','' = [''1'', [], ''3'']" by code_simp
  have invalid: "\<not> validUint64 []" by (simp add: validUint64_def)
  have up: "parseVersions (Split ''1,,3'' CHR '','') [] = Inr [1, 3]" by code_simp
  have down: "parseVersions (Split [] CHR '','') [] = Inr []" by code_simp
  have run: "result (syncRunE goodWorld
      (syncFlags ''tcp://localhost:9000'' ''false'' ''cluster'' ''false'' ''1,,3'' [])) =
      Panic nilDereference"
    using up down by (simp add: syncRunE_def flag_defs result_def)
  from pieces invalid up run show ?thesis by blast
qed

text \<open>
  C10. In the loop both commands parse their \<^verbatim>\<open>--up\<close> and \<^verbatim>\<open>--down\<close> values with,
  empty pieces are skipped: the empty value parses to the empty list, "1,,3" parses to
  1, 3, and in general parsing a list of pieces is parsing its non-empty pieces. The
  async command, given \<^verbatim>\<open>--up\<close> "1,,3", calls \<open>MigrateUpAsync\<close> with 1, 3, and given
  the default empty values it calls \<open>MigrateUpAsync\<close> with the empty list.
\<close>

theorem empty_pieces_are_skipped:
  "parseVersions (Split [] CHR '','') [] = Inr [] \<and>
   parseVersions (Split ''1,,3'' CHR '','') [] = Inr [1, 3] \<and>
   parseVersions toks acc = parseVersions (filter (\<lambda>t. t \<noteq> []) toks) acc \<and>
   last (trace (asyncRunE goodWorld
     (asyncFlags ''tcp://localhost:9000'' ''false'' ''cluster'' ''false'' ''1,,3'' []))) =
     CallMigrateUpAsync (Manager 1) [1, 3] \<and>
   last (trace (asyncRunE goodWorld
     (asyncFlags ''tcp://localhost:9000'' ''false'' ''cluster'' ''false'' [] []))) =
     CallMigrateUpAsync (Manager 1) []"
proof -
  have none: "parseVersions (Split [] CHR '','') [] = Inr []" by code_simp
  have gap: "parseVersions (Split ''1,,3'' CHR '','') [] = Inr [1, 3]" by code_simp
  have run_gap: "last (trace (asyncRunE goodWorld
      (asyncFlags ''tcp://localhost:9000'' ''false'' ''cluster'' ''false'' ''1,,3'' []))) =
      CallMigrateUpAsync (Manager 1) [1, 3]"
    using none gap by (simp add: asyncRunE_def flag_defs trace_def io_defs goodWorld_def)
  have run_none: "last (trace (asyncRunE goodWorld
      (asyncFlags ''tcp://localhost:9000'' ''false'' ''cluster'' ''false'' [] []))) =
      CallMigrateUpAsync (Manager 1) []"
    using none by (simp add: asyncRunE_def flag_defs trace_def io_defs goodWorld_def)
  from none gap run_gap run_none parseVersions_skips_empty show ?thesis by blast
qed

subsection \<open>The certificate flags of the sync command\<close>

text \<open>
  Whatever the values of the flags, a sync command that gets past the version lists
  panics at the lookup of \<^verbatim>\<open>cert-dir\<close> and never calls \<open>RunSyncMigrate\<close>.
\<close>

lemma syncRunE_panics:
  "parseVersions (Split vUp CHR '','') [] = Inr ups \<Longrightarrow>
   parseVersions (Split vDown CHR '','') [] = Inr downs \<Longrightarrow>
   run_state (syncRunE w (syncFlags vDsn vRep vCluster vDev vUp vDown)) [] =
     (Panic nilDereference, [])"
  by (simp add: syncRunE_def flag_defs)

text \<open>
  C1 does not hold of the code. The flag set of the sync command has no \<^verbatim>\<open>cert-dir\<close>,
  \<^verbatim>\<open>cert-name\<close>, \<^verbatim>\<open>key-name\<close> or \<^verbatim>\<open>ca-name\<close>, whatever the values of the flags it has;
  run with \<^verbatim>\<open>--up 1,2,3\<close>, the command panics on a nil pointer and has made no call
  and written no log line.
\<close>

theorem sync_certificate_flags_are_not_defined:
  "syncFlags vDsn vRep vCluster vDev vUp vDown ''cert-dir'' = None \<and>
   syncFlags vDsn vRep vCluster vDev vUp vDown ''cert-name'' = None \<and>
   syncFlags vDsn vRep vCluster vDev vUp vDown ''key-name'' = None \<and>
   syncFlags vDsn vRep vCluster vDev vUp vDown ''ca-name'' = None \<and>
   run_state (syncRunE w
     (syncFlags ''tcp://localhost:9000'' ''false'' ''cluster'' ''false'' ''1,2,3'' [])) [] =
     (Panic nilDereference, [])"
proof -
  have up: "parseVersions (Split ''1,2,3'' CHR '','') [] = Inr [1, 2, 3]" by code_simp
  have down: "parseVersions (Split [] CHR '','') [] = Inr []" by code_simp
  show ?thesis using up down by (simp add: syncRunE_def flag_defs)
qed

end
